theory Spec2Isabelle
  imports Complex_Main "HOL-Library.Log_Nat"
begin

section \<open>The drawable scene-graph node of cardmaker\<close>

text \<open>
  This theory embeds \<^verbatim>\<open>assets/js/layout/drawing/cardmaker.drawable-1.0.0.js\<close>:
  the constructor and the prototype methods of \<^verbatim>\<open>Drawable\<close> and the
  \<^verbatim>\<open>InvalidateEvent\<close> record. Objects live in a store indexed by node identity, since
  nodes refer to each other through their \<^verbatim>\<open>parent\<close> field and a paint hook may call
  back into the node that is being drawn.
\<close>

subsection \<open>Numbers\<close>

text \<open>
  The Number values of JavaScript, which the coordinates of the program are: the IEEE 754
  binary64 values. A finite value is the rational it denotes; the two zeros are one
  value, as they are for \<^verbatim>\<open>===\<close>.
\<close>

datatype number = Finite rat | PosInfinity | NegInfinity | NaN

text \<open>The integer \<open>e\<close> with \<open>2 ^ e \<le> q < 2 ^ (e + 1)\<close>, for a positive \<open>q\<close>.\<close>

definition floor_log2 :: "rat \<Rightarrow> int" where
  "floor_log2 q =
     (let d = bitlen (fst (quotient_of q)) - bitlen (snd (quotient_of q))
      in if 2 powi d \<le> q then d else d - 1)"

text \<open>The nearest integer, the even one of two that are equally near.\<close>

definition round_half_even :: "rat \<Rightarrow> int" where
  "round_half_even x =
     (let f = \<lfloor>x\<rfloor>; d = x - of_int f
      in if d < 1 / 2 then f else if 1 / 2 < d then f + 1 else if even f then f else f + 1)"

text \<open>
  The Number nearest to a rational, as every arithmetic operation rounds its exact
  result: 53 significant bits, exponents from -1022 (the subnormal values below) to 1023,
  ties to the even significand, and an infinity from \<open>2 ^ 1024\<close> on.
\<close>

definition round_double :: "rat \<Rightarrow> number" where
  "round_double q =
     (if q = 0 then Finite 0
      else
        let e = max (floor_log2 \<bar>q\<bar>) (- 1022);
            ulp = 2 powi (e - 52);
            r = of_int (round_half_even (q / ulp)) * ulp
        in if 2 ^ 1024 \<le> \<bar>r\<bar> then (if 0 < q then PosInfinity else NegInfinity)
           else Finite r)"

text \<open>The operators \<^verbatim>\<open>+\<close> and \<^verbatim>\<open>-\<close> on Numbers.\<close>

fun number_add :: "number \<Rightarrow> number \<Rightarrow> number" where
  "number_add NaN y = NaN"
| "number_add x NaN = NaN"
| "number_add PosInfinity NegInfinity = NaN"
| "number_add NegInfinity PosInfinity = NaN"
| "number_add PosInfinity y = PosInfinity"
| "number_add x PosInfinity = PosInfinity"
| "number_add NegInfinity y = NegInfinity"
| "number_add x NegInfinity = NegInfinity"
| "number_add (Finite a) (Finite b) = round_double (a + b)"

fun number_neg :: "number \<Rightarrow> number" where
  "number_neg (Finite a) = Finite (- a)"
| "number_neg PosInfinity = NegInfinity"
| "number_neg NegInfinity = PosInfinity"
| "number_neg NaN = NaN"

definition number_sub :: "number \<Rightarrow> number \<Rightarrow> number" where
  "number_sub x y = number_add x (number_neg y)"

subsection \<open>Values and collaborators\<close>

text \<open>
  A JavaScript value as far as the two \<^verbatim>\<open>instanceof\<close> tests and the comparison with
  \<^verbatim>\<open>null\<close> can tell values apart: \<open>NodeRef n\<close> is a reference to the object \<open>n\<close>
  of the store, which is an instance of \<^verbatim>\<open>cardmaker.Drawable\<close>; \<open>OtherObject\<close> is a
  reference to an object that is no Drawable (a canvas, a plain object).
\<close>

datatype jsval = Undefined | Null | Number number | NodeRef nat | OtherObject nat

datatype error = Error string | TypeError string

text \<open>
  Modelled from the spec: the class \<^verbatim>\<open>cardmaker.Lock\<close>, which is not part of the file.
  The reentrancy lock is a held/free flag with a non-blocking \<^verbatim>\<open>tryLock()\<close> that
  returns whether the lock was acquired, \<^verbatim>\<open>unlock()\<close> and the query \<^verbatim>\<open>isLocked()\<close>.
\<close>

record lock =
  held :: bool

definition new_Lock :: lock where
  "new_Lock = \<lparr>held = False\<rparr>"

definition tryLock :: "lock \<Rightarrow> bool \<times> lock" where
  "tryLock l = (if held l then (False, l) else (True, l\<lparr>held := True\<rparr>))"

definition unlock :: "lock \<Rightarrow> lock" where
  "unlock l = l\<lparr>held := False\<rparr>"

definition isLocked :: "lock \<Rightarrow> bool" where
  "isLocked l = held l"

text \<open>
  Modelled from the spec: the class \<^verbatim>\<open>cardmaker.Bounds\<close>, which is not part of the
  file. A rectangle with get/set for minX, minY, width and height, which are Numbers,
  constructed with zero values.
\<close>

record bounds =
  minX :: number
  minY :: number
  width :: number
  height :: number

definition new_Bounds :: bounds where
  "new_Bounds = \<lparr>minX = Finite 0, minY = Finite 0, width = Finite 0, height = Finite 0\<rparr>"

text \<open>
  Modelled from the spec: the class \<^verbatim>\<open>cardmaker.Point\<close>, which is not part of the
  file. An immutable value of two Numbers; \<^verbatim>\<open>add(dx, dy)\<close> and \<^verbatim>\<open>subtract(dx, dy)\<close>
  return the new points \<^verbatim>\<open>(x + dx, y + dy)\<close> and \<^verbatim>\<open>(x - dx, y - dy)\<close>, computed as
  JavaScript computes them; \<^verbatim>\<open>createFromBounds\<close> builds the point of a rectangle's
  origin.
\<close>

datatype point = Point (getX_point: number) (getY_point: number)

definition add :: "point \<Rightarrow> number \<Rightarrow> number \<Rightarrow> point" where
  "add p dx dy = Point (number_add (getX_point p) dx) (number_add (getY_point p) dy)"

definition subtract :: "point \<Rightarrow> number \<Rightarrow> number \<Rightarrow> point" where
  "subtract p dx dy = Point (number_sub (getX_point p) dx) (number_sub (getY_point p) dy)"

definition createFromBounds :: "bounds \<Rightarrow> point" where
  "createFromBounds b = Point (minX b) (minY b)"

text \<open>
  Modelled from the spec: the class \<^verbatim>\<open>cardmaker.Matrix\<close>, which is not part of the
  file. The transform value of a node (an affine map, the identity when constructed); the
  node only listens to its change notifications.
\<close>

datatype matrix = Matrix int int int int int int

definition new_Matrix :: matrix where
  "new_Matrix = Matrix 1 0 0 1 0 0"

subsection \<open>InvalidateEvent\<close>

text \<open>
  \<^verbatim>\<open>InvalidateEvent(type, target)\<close> passes \<open>type\<close> to the constructor of
  \<^verbatim>\<open>cardmaker.Event\<close> and stores \<open>target\<close>.
\<close>

record InvalidateEvent =
  event_type :: string
  target :: jsval

definition new_InvalidateEvent :: "string \<Rightarrow> jsval \<Rightarrow> InvalidateEvent" where
  "new_InvalidateEvent type tgt = \<lparr>event_type = type, target = tgt\<rparr>"

subsection \<open>Drawable\<close>

text \<open>
  The fields of a \<^verbatim>\<open>Drawable\<close>. \<open>container\<close> is the class of the object: whether it
  is an instance of \<^verbatim>\<open>cardmaker.DrawableContainer\<close>.
\<close>

record drawable =
  bounds :: bounds
  parent :: jsval
  matrix :: matrix
  lock :: lock
  valid :: bool
  container :: bool

text \<open>The constructor; \<open>c\<close> tells whether a container is constructed.\<close>

definition new_Drawable :: "bool \<Rightarrow> drawable" where
  "new_Drawable c =
     \<lparr>bounds = new_Bounds, parent = Null, matrix = new_Matrix, lock = new_Lock,
      valid = False, container = c\<rparr>"

text \<open>
  The program state: the store of nodes and the events dispatched so far, in order, each
  with the node that dispatched it and its type.
\<close>

record state =
  nodes :: "nat \<Rightarrow> drawable"
  dispatched :: "(nat \<times> string \<times> InvalidateEvent) list"

datatype outcome = Returned state | Thrown error state

definition update_node :: "nat \<Rightarrow> (drawable \<Rightarrow> drawable) \<Rightarrow> state \<Rightarrow> state" where
  "update_node n f s = s\<lparr>nodes := (nodes s)(n := f (nodes s n))\<rparr>"

text \<open>
  A listener is a function that is called with the event; it returns, throws, or does
  not terminate (\<open>None\<close>). The listeners of the program are a table: those registered,
  in the order of their registration, on each node for each event type.
\<close>

type_synonym listener = "InvalidateEvent \<Rightarrow> state \<Rightarrow> outcome option"

type_synonym listeners = "nat \<Rightarrow> string \<Rightarrow> listener list"

text \<open>
  Modelled from the spec: \<^verbatim>\<open>cardmaker.MVCObject.prototype.dispatch\<close>, which is not part
  of the file. \<^verbatim>\<open>dispatch(type, event)\<close> is a synchronous fan-out: it calls the
  listeners registered for the type one after the other, in the order of registration,
  each to completion, before it returns; what a listener throws is thrown by
  \<^verbatim>\<open>dispatch\<close>. The state records the event as dispatched before the listeners run.
\<close>

fun run_listeners :: "listener list \<Rightarrow> InvalidateEvent \<Rightarrow> state \<Rightarrow> outcome option" where
  "run_listeners [] ev s = Some (Returned s)"
| "run_listeners (l # ls) ev s =
     (case l ev s of
        None \<Rightarrow> None
      | Some (Thrown e s') \<Rightarrow> Some (Thrown e s')
      | Some (Returned s') \<Rightarrow> run_listeners ls ev s')"

definition dispatch :: "listeners \<Rightarrow> nat \<Rightarrow> string \<Rightarrow> InvalidateEvent \<Rightarrow> state \<Rightarrow> outcome option" where
  "dispatch L n type ev s =
     run_listeners (L n type) ev (s\<lparr>dispatched := dispatched s @ [(n, type, ev)]\<rparr>)"

definition instanceof_Drawable :: "jsval \<Rightarrow> bool" where
  "instanceof_Drawable v = (case v of NodeRef m \<Rightarrow> True | _ \<Rightarrow> False)"

text \<open>
  Modelled from the spec: the class \<^verbatim>\<open>cardmaker.DrawableContainer\<close>, which is not part
  of the file. A container is itself a drawable node (it is walked for coordinate
  conversion), so its instances are among the nodes of the store.
\<close>

definition instanceof_DrawableContainer :: "state \<Rightarrow> jsval \<Rightarrow> bool" where
  "instanceof_DrawableContainer s v =
     (case v of NodeRef m \<Rightarrow> container (nodes s m) | _ \<Rightarrow> False)"

text \<open>
  A paint hook is the method \<^verbatim>\<open>onDraw\<close> that \<^verbatim>\<open>this.onDraw(canvas)\<close> resolves to:
  it is given the node, the canvas and the state, and, so that its body can call
  \<^verbatim>\<open>draw\<close> again, the method \<^verbatim>\<open>draw\<close> itself. It returns, throws, or does not
  terminate (\<open>None\<close>).
\<close>

type_synonym draw_method = "nat \<Rightarrow> jsval \<Rightarrow> state \<Rightarrow> outcome option"

type_synonym paint_hook = "draw_method \<Rightarrow> nat \<Rightarrow> jsval \<Rightarrow> state \<Rightarrow> outcome option"

text \<open>\<^verbatim>\<open>Drawable.prototype.onDraw\<close>, the hook of a node whose class does not override it.\<close>

definition onDraw :: paint_hook where
  "onDraw self n canvas s =
     Some (Thrown (Error ''This method must be implemented by a subclass.'') s)"

text \<open>
  \<^verbatim>\<open>Drawable.prototype.draw\<close>. The first argument bounds the depth of nested calls of
  \<^verbatim>\<open>draw\<close> through paint hooks; \<open>None\<close> says that the bound was reached.
\<close>

primrec draw :: "nat \<Rightarrow> paint_hook \<Rightarrow> nat \<Rightarrow> jsval \<Rightarrow> state \<Rightarrow> outcome option" where
  "draw 0 hook n canvas s = None"
| "draw (Suc k) hook n canvas s =
     (case tryLock (lock (nodes s n)) of
        (True, l) \<Rightarrow>
          (case hook (draw k hook) n canvas (update_node n (\<lambda>d. d\<lparr>lock := l\<rparr>) s) of
             None \<Rightarrow> None
           | Some (Thrown e s') \<Rightarrow> Some (Thrown e s')
           | Some (Returned s') \<Rightarrow>
               Some (Returned
                 (update_node n (\<lambda>d. d\<lparr>valid := True\<rparr>)
                   (update_node n (\<lambda>d. d\<lparr>lock := unlock (lock d)\<rparr>) s'))))
      | (False, l) \<Rightarrow>
          Some (Returned
            (update_node n (\<lambda>d. d\<lparr>valid := True\<rparr>)
              (update_node n (\<lambda>d. d\<lparr>lock := l\<rparr>) s))))"

text \<open>
  \<^verbatim>\<open>Drawable.prototype.invalidate\<close>: \<open>valid\<close> is cleared first, then the event is
  dispatched to the listeners \<open>L\<close>.
\<close>

definition invalidate :: "listeners \<Rightarrow> nat \<Rightarrow> state \<Rightarrow> outcome option" where
  "invalidate L n s =
     dispatch L n ''invalidate'' (new_InvalidateEvent ''invalidate'' (NodeRef n))
       (update_node n (\<lambda>d. d\<lparr>valid := False\<rparr>) s)"

definition isValid :: "state \<Rightarrow> nat \<Rightarrow> bool" where
  "isValid s n = valid (nodes s n)"

definition setParent :: "nat \<Rightarrow> jsval \<Rightarrow> state \<Rightarrow> outcome" where
  "setParent n p s =
     (if \<not> instanceof_DrawableContainer s p \<and> p \<noteq> Null
      then Thrown (TypeError ''Drawable expects parent to be a cardmaker.DrawableContainer object'') s
      else Returned (update_node n (\<lambda>d. d\<lparr>parent := p\<rparr>) s))"

definition getParent :: "state \<Rightarrow> nat \<Rightarrow> jsval" where
  "getParent s n = parent (nodes s n)"

definition setX :: "nat \<Rightarrow> number \<Rightarrow> state \<Rightarrow> state" where
  "setX n x s = update_node n (\<lambda>d. d\<lparr>bounds := (bounds d)\<lparr>minX := x\<rparr>\<rparr>) s"

definition getX :: "state \<Rightarrow> nat \<Rightarrow> number" where
  "getX s n = minX (bounds (nodes s n))"

definition setY :: "nat \<Rightarrow> number \<Rightarrow> state \<Rightarrow> state" where
  "setY n y s = update_node n (\<lambda>d. d\<lparr>bounds := (bounds d)\<lparr>minY := y\<rparr>\<rparr>) s"

definition getY :: "state \<Rightarrow> nat \<Rightarrow> number" where
  "getY s n = minY (bounds (nodes s n))"

definition setWidth :: "nat \<Rightarrow> number \<Rightarrow> state \<Rightarrow> state" where
  "setWidth n w s = update_node n (\<lambda>d. d\<lparr>bounds := (bounds d)\<lparr>width := w\<rparr>\<rparr>) s"

definition getWidth :: "state \<Rightarrow> nat \<Rightarrow> number" where
  "getWidth s n = width (bounds (nodes s n))"

definition setHeight :: "nat \<Rightarrow> number \<Rightarrow> state \<Rightarrow> state" where
  "setHeight n h s = update_node n (\<lambda>d. d\<lparr>bounds := (bounds d)\<lparr>height := h\<rparr>\<rparr>) s"

definition getHeight :: "state \<Rightarrow> nat \<Rightarrow> number" where
  "getHeight s n = height (bounds (nodes s n))"

text \<open>
  \<^verbatim>\<open>Drawable.prototype.getLocalBounds\<close>. The field \<^verbatim>\<open>this.bounds\<close> is assigned once, in
  the constructor, to a \<^verbatim>\<open>cardmaker.Bounds\<close>, so the test of the source holds.
\<close>

definition getLocalBounds :: "state \<Rightarrow> nat \<Rightarrow> bounds" where
  "getLocalBounds s n =
     new_Bounds\<lparr>minX := getX s n, minY := getY s n,
                width := getWidth s n, height := getHeight s n\<rparr>"

text \<open>
  The loops of \<^verbatim>\<open>localToGlobal\<close> and \<^verbatim>\<open>globalToLocal\<close>, on the variables
  \<^verbatim>\<open>parent\<close> and \<^verbatim>\<open>point\<close>. A loop that does not terminate has the value \<open>None\<close>.
\<close>

partial_function (option) localToGlobal_loop :: "state \<Rightarrow> jsval \<Rightarrow> point \<Rightarrow> point option" where
  "localToGlobal_loop s p point =
     (case p of
        NodeRef m \<Rightarrow>
          localToGlobal_loop s (getParent s m)
            (add point (minX (bounds (nodes s m))) (minY (bounds (nodes s m))))
      | _ \<Rightarrow> Some point)"

definition localToGlobal :: "state \<Rightarrow> nat \<Rightarrow> point \<Rightarrow> point option" where
  "localToGlobal s n point = localToGlobal_loop s (getParent s n) point"

partial_function (option) globalToLocal_loop :: "state \<Rightarrow> jsval \<Rightarrow> point \<Rightarrow> point option" where
  "globalToLocal_loop s p point =
     (case p of
        NodeRef m \<Rightarrow>
          globalToLocal_loop s (getParent s m)
            (subtract point (minX (bounds (nodes s m))) (minY (bounds (nodes s m))))
      | _ \<Rightarrow> Some point)"

definition globalToLocal :: "state \<Rightarrow> nat \<Rightarrow> point \<Rightarrow> point option" where
  "globalToLocal s n point = globalToLocal_loop s (getParent s n) point"

definition getBounds :: "state \<Rightarrow> nat \<Rightarrow> bounds option" where
  "getBounds s n =
     (let b = getLocalBounds s n in
      case localToGlobal s n (createFromBounds b) of
        None \<Rightarrow> None
      | Some point \<Rightarrow> Some (b\<lparr>minX := getX_point point, minY := getY_point point\<rparr>))"

text \<open>
  \<^verbatim>\<open>Drawable.prototype.onPropertyChange\<close>, the listener that the constructor registers
  on the matrix of the node.
\<close>

definition onPropertyChange :: "listeners \<Rightarrow> nat \<Rightarrow> string \<Rightarrow> state \<Rightarrow> outcome option" where
  "onPropertyChange L n event s =
     (if \<not> isLocked (lock (nodes s n)) then invalidate L n s else Some (Returned s))"

subsection \<open>Notions used to state the properties\<close>

text \<open>The state an outcome carries: where the call returned, or where it threw.\<close>

definition state_of :: "outcome \<Rightarrow> state" where
  "state_of r = (case r of Returned s \<Rightarrow> s | Thrown e s \<Rightarrow> s)"

text \<open>The state \<open>s\<close> with the lock of node \<open>n\<close> held, as a paint hook of \<open>n\<close> finds it.\<close>

definition with_lock_held :: "nat \<Rightarrow> state \<Rightarrow> state" where
  "with_lock_held n s = update_node n (\<lambda>d. d\<lparr>lock := (lock d)\<lparr>held := True\<rparr>\<rparr>) s"

text \<open>
  Two nodes agree on every field but \<open>bounds\<close>.
\<close>

definition same_but_bounds :: "drawable \<Rightarrow> drawable \<Rightarrow> bool" where
  "same_but_bounds d d' =
     (parent d' = parent d \<and> matrix d' = matrix d \<and> lock d' = lock d \<and>
      valid d' = valid d \<and> container d' = container d)"

text \<open>
  The parent chain that starts at the reference \<open>p\<close> has exactly \<open>k\<close> drawable
  nodes before it reaches a reference that is no drawable node; \<open>ancestors\<close> lists the
  first \<open>k\<close> nodes of the chain.
\<close>

fun chain_ends :: "nat \<Rightarrow> state \<Rightarrow> jsval \<Rightarrow> bool" where
  "chain_ends 0 s p = (\<not> instanceof_Drawable p)"
| "chain_ends (Suc k) s p =
     (case p of NodeRef m \<Rightarrow> chain_ends k s (getParent s m) | _ \<Rightarrow> False)"

fun ancestors :: "nat \<Rightarrow> state \<Rightarrow> jsval \<Rightarrow> nat list" where
  "ancestors 0 s p = []"
| "ancestors (Suc k) s p =
     (case p of NodeRef m \<Rightarrow> m # ancestors k s (getParent s m) | _ \<Rightarrow> [])"

text \<open>
  A point after the origin of each node of a list has been added to it, or subtracted
  from it, one node after the other, in Number arithmetic.
\<close>

definition add_origins :: "state \<Rightarrow> point \<Rightarrow> nat list \<Rightarrow> point" where
  "add_origins s p ms = foldl (\<lambda>pt m. add pt (getX s m) (getY s m)) p ms"

definition subtract_origins :: "state \<Rightarrow> point \<Rightarrow> nat list \<Rightarrow> point" where
  "subtract_origins s p ms = foldl (\<lambda>pt m. subtract pt (getX s m) (getY s m)) p ms"

text \<open>
  The Number of an integer. From \<open>x\<close> on, every partial sum of the integers of a list
  is at most \<open>2 ^ 53\<close> in magnitude, the range in which Numbers hold every integer.
\<close>

definition number_of_int :: "int \<Rightarrow> number" where
  "number_of_int i = Finite (of_int i)"

fun partial_sums_safe :: "int \<Rightarrow> int list \<Rightarrow> bool" where
  "partial_sums_safe x [] = True"
| "partial_sums_safe x (a # as) = (\<bar>x + a\<bar> \<le> 2 ^ 53 \<and> partial_sums_safe (x + a) as)"

text \<open>
  The paint hook of a subclass whose \<^verbatim>\<open>onDraw\<close> runs \<open>before\<close>, calls
  \<^verbatim>\<open>this.draw(canvas)\<close> on its own node and then runs \<open>after\<close>.
\<close>

definition reentrant_onDraw :: "(state \<Rightarrow> state) \<Rightarrow> (state \<Rightarrow> state) \<Rightarrow> paint_hook" where
  "reentrant_onDraw before after self n canvas s =
     (case self n canvas (before s) of
        None \<Rightarrow> None
      | Some (Thrown e s') \<Rightarrow> Some (Thrown e s')
      | Some (Returned s') \<Rightarrow> Some (Returned (after s')))"

text \<open>
  The state after \<^verbatim>\<open>draw\<close> on node \<open>n\<close> with the hook \<open>reentrant_onDraw before after\<close>,
  when the hook runs once: the lock is taken, \<open>before\<close> runs, the nested call only sets
  \<open>valid\<close>, \<open>after\<close> runs, the lock is released and \<open>valid\<close> is set.
\<close>

definition reentrant_result :: "(state \<Rightarrow> state) \<Rightarrow> (state \<Rightarrow> state) \<Rightarrow> nat \<Rightarrow> state \<Rightarrow> state" where
  "reentrant_result before after n s =
     update_node n (\<lambda>d. d\<lparr>valid := True\<rparr>)
       (update_node n (\<lambda>d. d\<lparr>lock := unlock (lock d)\<rparr>)
         (after (update_node n (\<lambda>d. d\<lparr>valid := True\<rparr>) (before (with_lock_held n s)))))"

text \<open>The paint hook of a subclass whose \<^verbatim>\<open>onDraw\<close> calls \<^verbatim>\<open>this.setX(x)\<close>.\<close>

definition moving_onDraw :: "number \<Rightarrow> paint_hook" where
  "moving_onDraw x self n canvas s = Some (Returned (setX n x s))"

text \<open>
  The paint hook of a subclass whose \<^verbatim>\<open>onDraw\<close> changes the transform of its node:
  the matrix notifies the listener that the constructor registered with
  \<^verbatim>\<open>addChangeListener\<close>, which is \<^verbatim>\<open>onPropertyChange\<close> bound to the node.
\<close>

definition notifying_onDraw :: "listeners \<Rightarrow> string \<Rightarrow> paint_hook" where
  "notifying_onDraw L event self n canvas s = onPropertyChange L n event s"

text \<open>
  The paint hook of a subclass whose \<^verbatim>\<open>onDraw\<close> calls \<^verbatim>\<open>this.draw(canvas)\<close> and then
  throws.
\<close>

definition redraw_and_throw_onDraw :: paint_hook where
  "redraw_and_throw_onDraw self n canvas s =
     (case self n canvas s of
        None \<Rightarrow> None
      | Some (Thrown e s') \<Rightarrow> Some (Thrown e s')
      | Some (Returned s') \<Rightarrow> Some (Thrown (Error ''painting failed'') s'))"


text \<open>
  The state in which \<^verbatim>\<open>invalidate\<close> on node \<open>n\<close> calls the listeners: \<open>valid\<close> is
  false and the event is dispatched.
\<close>

definition invalidated :: "nat \<Rightarrow> state \<Rightarrow> state" where
  "invalidated n s =
     (update_node n (\<lambda>d. d\<lparr>valid := False\<rparr>) s)
       \<lparr>dispatched := dispatched s @
          [(n, ''invalidate'', new_InvalidateEvent ''invalidate'' (NodeRef n))]\<rparr>"

text \<open>
  No listener is registered. A listener that always returns and leaves \<open>valid\<close> of node
  \<open>n\<close> as it is. A listener that redraws the invalidated node at once, with
  \<^verbatim>\<open>event.target.draw(canvas)\<close>.
\<close>

definition no_listeners :: listeners where
  "no_listeners n type = []"



text \<open>
  Freshly constructed nodes: node \<open>0\<close> is a plain drawable, every other node is a
  container; nothing has been dispatched.
\<close>

definition fresh :: state where
  "fresh = \<lparr>nodes = (\<lambda>n. new_Drawable (0 < n)), dispatched = []\<rparr>"

text \<open>
  The scene of two nodes: A is node \<open>0\<close> at (10, 5), 20 wide and 30 high, and its parent
  B is the container \<open>1\<close> at (100, 50), which has no parent.
\<close>

definition scene_AB :: state where
  "scene_AB =
     state_of (setParent 0 (NodeRef 1)
       (setHeight 0 (Finite 30) (setWidth 0 (Finite 20) (setY 0 (Finite 5) (setX 0 (Finite 10)
         (setY 1 (Finite 50) (setX 1 (Finite 100) fresh)))))))"

text \<open>
  The scene of A and B with one more level: B is given the parent C, the container \<open>2\<close>
  at (1000, -500).
\<close>

definition scene_ABC :: state where
  "scene_ABC =
     state_of (setParent 1 (NodeRef 2) (setY 2 (Finite (- 500)) (setX 2 (Finite 1000) scene_AB)))"

text \<open>
  Node \<open>0\<close>, at the origin, under the parentless container \<open>1\<close> at \<open>(x, y)\<close>. The same
  with one more level: the container \<open>1\<close> is under the parentless container \<open>2\<close> at
  \<open>(x', y')\<close>.
\<close>

definition scene_one_parent :: "number \<Rightarrow> number \<Rightarrow> state" where
  "scene_one_parent x y = state_of (setParent 0 (NodeRef 1) (setY 1 y (setX 1 x fresh)))"

definition scene_two_parents :: "number \<Rightarrow> number \<Rightarrow> number \<Rightarrow> number \<Rightarrow> state" where
  "scene_two_parents x y x' y' =
     state_of (setParent 1 (NodeRef 2) (setY 2 y' (setX 2 x' (scene_one_parent x y))))"

text \<open>
  Two containers made each other's parent: \<open>cycle_half\<close> after
  \<^verbatim>\<open>c2.setParent(c1)\<close>, \<open>cycle\<close> after \<^verbatim>\<open>c1.setParent(c2)\<close> as well.
\<close>

definition cycle_half :: state where
  "cycle_half = update_node 2 (\<lambda>d. d\<lparr>parent := NodeRef 1\<rparr>) fresh"

definition cycle :: state where
  "cycle = update_node 1 (\<lambda>d. d\<lparr>parent := NodeRef 2\<rparr>) cycle_half"

declare localToGlobal_loop.simps [code]

declare globalToLocal_loop.simps [code]

section \<open>Properties\<close>

subsection \<open>Numbers that hold integers\<close>

lemma round_half_even_of_int: "round_half_even (of_int z) = z"
  by (simp add: round_half_even_def)

lemma floor_log2_of_int:
  assumes "0 < a"
  shows "floor_log2 (of_int a) = bitlen a - 1"
proof -
  from assms have pos: "0 \<le> bitlen a - 1"
    using bitlen_bounds [of a] bitlen_nonneg [of a] bitlen_eq_zero_iff [of a] by linarith
  from assms have "(2::int) ^ nat (bitlen a - 1) \<le> a"
    using bitlen_bounds by blast
  then have "(of_int ((2::int) ^ nat (bitlen a - 1)) :: rat) \<le> of_int a"
    by (simp only: of_int_le_iff)
  then have "(2::rat) powi (bitlen a - 1) \<le> of_int a"
    using pos by (simp add: power_int_def)
  moreover have "bitlen 1 = 1"
    by (simp add: bitlen_alt_def)
  ultimately show ?thesis
    by (simp add: floor_log2_def quotient_of_int Let_def)
qed

lemma bitlen_below_53:
  assumes "0 < a" "a < 2 ^ 53"
  shows "bitlen a \<le> 53"
proof (rule ccontr)
  assume "\<not> bitlen a \<le> 53"
  then have "(53::nat) \<le> nat (bitlen a - 1)"
    by simp
  then have "(2::int) ^ 53 \<le> 2 ^ nat (bitlen a - 1)"
    by (rule power_increasing) simp
  also have "\<dots> \<le> a"
    using bitlen_bounds [OF assms(1)] by blast
  finally show False
    using assms(2) by simp
qed

lemma round_double_small_int:
  assumes "\<bar>n\<bar> < 2 ^ 53"
  shows "round_double (of_int n) = Finite (of_int n)"
proof (cases "n = 0")
  case True
  then show ?thesis
    by (simp add: round_double_def)
next
  case False
  define a where "a = \<bar>n\<bar>"
  from False have a: "0 < a"
    by (simp add: a_def)
  from assms have a53: "a < 2 ^ 53"
    by (simp add: a_def)
  define e where "e = bitlen a - 1"
  have e0: "0 \<le> e"
    using bitlen_bounds [OF a] bitlen_nonneg [of a] bitlen_eq_zero_iff [of a] a
    unfolding e_def by linarith
  have e52: "e \<le> 52"
    using bitlen_below_53 [OF a a53] by (simp add: e_def)
  have fl: "floor_log2 \<bar>of_int n :: rat\<bar> = e"
    using floor_log2_of_int [OF a] by (simp add: a_def e_def)
  define k where "k = nat (52 - e)"
  have ulp: "(2::rat) powi (max e (- 1022) - 52) = 1 / 2 ^ k"
    using e0 e52 by (simp add: power_int_def k_def max_def inverse_eq_divide power_one_over)
  have scaled: "(of_int n :: rat) / (1 / 2 ^ k) = of_int (n * 2 ^ k)"
    by simp
  have unscaled: "(of_int (n * 2 ^ k) :: rat) * (1 / 2 ^ k) = of_int n"
    by simp
  have small: "\<not> (2::rat) ^ 1024 \<le> \<bar>of_int n\<bar>"
  proof -
    have "\<bar>of_int n :: rat\<bar> = of_int a"
      by (simp add: a_def)
    also have "\<dots> < of_int (2 ^ 53)"
      using a53 by (simp only: of_int_less_iff)
    also have "\<dots> \<le> (2::rat) ^ 1024"
      by simp
    finally show ?thesis
      by simp
  qed
  from False show ?thesis
    unfolding round_double_def Let_def fl ulp scaled round_half_even_of_int unscaled
    using small by simp
qed

lemma round_double_safe_int:
  assumes "\<bar>n\<bar> \<le> 2 ^ 53"
  shows "round_double (of_int n) = Finite (of_int n)"
proof (cases "\<bar>n\<bar> < 2 ^ 53")
  case True
  then show ?thesis
    by (rule round_double_small_int)
next
  case False
  with assms have "n = 9007199254740992 \<or> n = - 9007199254740992"
    by auto
  then show ?thesis
  proof
    assume "n = 9007199254740992"
    moreover have "round_double 9007199254740992 = Finite 9007199254740992"
      by code_simp
    ultimately show ?thesis
      by simp
  next
    assume "n = - 9007199254740992"
    moreover have "round_double (- 9007199254740992) = Finite (- 9007199254740992)"
      by code_simp
    ultimately show ?thesis
      by simp
  qed
qed

lemma number_add_safe:
  "\<bar>a + b\<bar> \<le> 2 ^ 53 \<Longrightarrow>
   number_add (number_of_int a) (number_of_int b) = number_of_int (a + b)"
  using round_double_safe_int [of "a + b"] by (simp add: number_of_int_def)

lemma number_sub_safe:
  "\<bar>a - b\<bar> \<le> 2 ^ 53 \<Longrightarrow>
   number_sub (number_of_int a) (number_of_int b) = number_of_int (a - b)"
  using round_double_safe_int [of "a - b"] by (simp add: number_of_int_def number_sub_def)

lemma foldl_number_add_safe:
  "partial_sums_safe x as \<Longrightarrow>
   foldl number_add (number_of_int x) (map number_of_int as) = number_of_int (x + sum_list as)"
  by (induction as arbitrary: x) (simp_all add: number_add_safe add.assoc)

text \<open>Subtracting the integers of a list one after the other, within the same range.\<close>

lemma foldl_number_sub_safe:
  "\<bar>x\<bar> + sum_list (map abs as) \<le> 2 ^ 53 \<Longrightarrow>
   foldl number_sub (number_of_int (x + sum_list as)) (map number_of_int as) = number_of_int x"
proof (induction as arbitrary: x)
  case Nil
  then show ?case
    by simp
next
  case (Cons a as)
  have "\<bar>sum_list as\<bar> \<le> sum_list (map abs as)"
    by (rule sum_list_abs)
  with Cons.prems have "\<bar>x + (a + sum_list as) - a\<bar> \<le> 2 ^ 53"
    by simp
  then have step: "number_sub (number_of_int (x + (a + sum_list as))) (number_of_int a) =
      number_of_int (x + sum_list as)"
    using number_sub_safe [of "x + (a + sum_list as)" a] by simp
  from Cons.prems have "\<bar>x\<bar> + sum_list (map abs as) \<le> 2 ^ 53"
    by simp
  then show ?case
    by (simp add: step Cons.IH)
qed

lemma magnitudes_partial_sums_safe:
  "\<bar>x\<bar> + sum_list (map abs as) \<le> 2 ^ 53 \<Longrightarrow> partial_sums_safe x as"
proof (induction as arbitrary: x)
  case Nil
  then show ?case
    by simp
next
  case (Cons a as)
  have "0 \<le> sum_list (map abs as)"
    by (rule sum_list_nonneg) auto
  with Cons.prems have "\<bar>x + a\<bar> \<le> 2 ^ 53" and "\<bar>x + a\<bar> + sum_list (map abs as) \<le> 2 ^ 53"
    by simp_all
  with Cons.IH show ?case
    by simp
qed

subsection \<open>One call of draw\<close>

lemma draw_lock_held:
  "isLocked (lock (nodes s n)) \<Longrightarrow>
   draw (Suc k) hook n canvas s = Some (Returned (update_node n (\<lambda>d. d\<lparr>valid := True\<rparr>) s))"
  by (simp add: tryLock_def isLocked_def update_node_def)

lemma draw_lock_free:
  "\<not> isLocked (lock (nodes s n)) \<Longrightarrow>
   draw (Suc k) hook n canvas s =
     (case hook (draw k hook) n canvas (with_lock_held n s) of
        None \<Rightarrow> None
      | Some (Thrown e s') \<Rightarrow> Some (Thrown e s')
      | Some (Returned s') \<Rightarrow>
          Some (Returned
            (update_node n (\<lambda>d. d\<lparr>valid := True\<rparr>)
              (update_node n (\<lambda>d. d\<lparr>lock := unlock (lock d)\<rparr>) s'))))"
  by (simp add: tryLock_def isLocked_def with_lock_held_def update_node_def)

lemma draw_returned_valid:
  "draw j hook n canvas s = Some (Returned t) \<Longrightarrow> isValid t n"
  by (cases j) (auto simp: tryLock_def isValid_def update_node_def split: if_splits option.splits outcome.splits)

declare draw.simps [simp del]

lemma held_with_lock_held: "isLocked (lock (nodes (with_lock_held n s) n))"
  by (simp add: with_lock_held_def update_node_def isLocked_def)

lemma valid_with_lock_held: "isValid (with_lock_held n s) m = isValid s m"
  by (simp add: with_lock_held_def update_node_def isValid_def)

lemma fresh_lock_free: "\<not> isLocked (lock (nodes fresh n))"
  by (simp add: fresh_def isLocked_def new_Drawable_def new_Lock_def)


lemma draw_lock_free_returned:
  "\<not> isLocked (lock (nodes s n)) \<Longrightarrow> draw j hook n canvas s = Some (Returned t) \<Longrightarrow>
   \<not> isLocked (lock (nodes t n))"
  by (cases j)
    (auto simp: draw.simps(1) draw_lock_free isLocked_def update_node_def unlock_def
      split: option.splits outcome.splits)

lemma release_free_lock: "\<not> held l \<Longrightarrow> l\<lparr>held := False\<rparr> = l"
  by (cases l) simp




subsection \<open>Listeners\<close>

lemma invalidate_eq:
  "invalidate L n s =
     run_listeners (L n ''invalidate'') (new_InvalidateEvent ''invalidate'' (NodeRef n))
       (invalidated n s)"
  by (simp add: invalidate_def dispatch_def invalidated_def update_node_def)

lemma invalidated_invalid: "\<not> isValid (invalidated n s) n"
  by (simp add: invalidated_def isValid_def update_node_def)


lemma onPropertyChange_lock_held:
  "isLocked (lock (nodes s n)) \<Longrightarrow> onPropertyChange L n event s = Some (Returned s)"
  by (simp add: onPropertyChange_def)

lemma draw_notifying:
  "\<not> isLocked (lock (nodes s n)) \<Longrightarrow>
   draw (Suc k) (notifying_onDraw L event) n canvas s =
     Some (Returned (update_node n (\<lambda>d. d\<lparr>valid := True\<rparr>) s))"
  by (simp add: draw_lock_free notifying_onDraw_def onPropertyChange_def held_with_lock_held)
    (simp add: with_lock_held_def update_node_def unlock_def isLocked_def release_free_lock)

subsection \<open>The parent-chain walk\<close>

lemma localToGlobal_loop_chain:
  "chain_ends k s p \<Longrightarrow>
   localToGlobal_loop s p point = Some (add_origins s point (ancestors k s p))"
proof (induction k arbitrary: p point)
  case 0
  then show ?case
    by (subst localToGlobal_loop.simps)
      (simp add: instanceof_Drawable_def add_origins_def split: jsval.splits)
next
  case (Suc k)
  then obtain m where p: "p = NodeRef m" and rest: "chain_ends k s (getParent s m)"
    by (auto split: jsval.splits)
  show ?case
    by (subst localToGlobal_loop.simps)
      (simp add: p Suc.IH [OF rest] add_origins_def getX_def getY_def)
qed

lemma globalToLocal_loop_chain:
  "chain_ends k s p \<Longrightarrow>
   globalToLocal_loop s p point = Some (subtract_origins s point (ancestors k s p))"
proof (induction k arbitrary: p point)
  case 0
  then show ?case
    by (subst globalToLocal_loop.simps)
      (simp add: instanceof_Drawable_def subtract_origins_def split: jsval.splits)
next
  case (Suc k)
  then obtain m where p: "p = NodeRef m" and rest: "chain_ends k s (getParent s m)"
    by (auto split: jsval.splits)
  show ?case
    by (subst globalToLocal_loop.simps)
      (simp add: p Suc.IH [OF rest] subtract_origins_def getX_def getY_def)
qed

lemma localToGlobal_chain:
  "chain_ends k s (getParent s n) \<Longrightarrow>
   localToGlobal s n p = Some (add_origins s p (ancestors k s (getParent s n)))"
  by (simp add: localToGlobal_def localToGlobal_loop_chain)

lemma globalToLocal_chain:
  "chain_ends k s (getParent s n) \<Longrightarrow>
   globalToLocal s n p = Some (subtract_origins s p (ancestors k s (getParent s n)))"
  by (simp add: globalToLocal_def globalToLocal_loop_chain)

lemma add_origins_coordinates:
  "add_origins s (Point x y) ms =
     Point (foldl number_add x (map (getX s) ms)) (foldl number_add y (map (getY s) ms))"
  unfolding add_origins_def
  by (induction ms arbitrary: x y) (simp_all add: add_def)

lemma subtract_origins_coordinates:
  "subtract_origins s (Point x y) ms =
     Point (foldl number_sub x (map (getX s) ms)) (foldl number_sub y (map (getY s) ms))"
  unfolding subtract_origins_def
  by (induction ms arbitrary: x y) (simp_all add: subtract_def)

lemma chain_ends_step:
  assumes "\<And>m. p = NodeRef m \<Longrightarrow> \<exists>k. chain_ends k s (getParent s m)"
  shows "\<exists>k. chain_ends k s p"
proof (cases p)
  case (NodeRef m)
  with assms obtain k where "chain_ends k s (getParent s m)"
    by blast
  with NodeRef have "chain_ends (Suc k) s p"
    by simp
  then show ?thesis ..
qed (auto intro!: exI [of _ 0] simp: instanceof_Drawable_def)

lemma localToGlobal_loop_returns:
  assumes "localToGlobal_loop s p point = Some q"
  shows "\<exists>k. chain_ends k s p"
proof (rule localToGlobal_loop.raw_induct [where P = "\<lambda>s p point q. \<exists>k. chain_ends k s p", OF _ assms])
  fix loop s p point q
  assume IH: "\<And>s p point q. loop s p point = Some q \<Longrightarrow> \<exists>k. chain_ends k s p"
    and body: "(case p of
        NodeRef m \<Rightarrow>
          loop s (getParent s m)
            (add point (minX (bounds (nodes s m))) (minY (bounds (nodes s m))))
      | _ \<Rightarrow> Some point) = Some q"
  show "\<exists>k. chain_ends k s p"
  proof (rule chain_ends_step)
    fix m assume "p = NodeRef m"
    with body IH show "\<exists>k. chain_ends k s (getParent s m)"
      by simp
  qed
qed

lemma globalToLocal_loop_returns:
  assumes "globalToLocal_loop s p point = Some q"
  shows "\<exists>k. chain_ends k s p"
proof (rule globalToLocal_loop.raw_induct [where P = "\<lambda>s p point q. \<exists>k. chain_ends k s p", OF _ assms])
  fix loop s p point q
  assume IH: "\<And>s p point q. loop s p point = Some q \<Longrightarrow> \<exists>k. chain_ends k s p"
    and body: "(case p of
        NodeRef m \<Rightarrow>
          loop s (getParent s m)
            (subtract point (minX (bounds (nodes s m))) (minY (bounds (nodes s m))))
      | _ \<Rightarrow> Some point) = Some q"
  show "\<exists>k. chain_ends k s p"
  proof (rule chain_ends_step)
    fix m assume "p = NodeRef m"
    with body IH show "\<exists>k. chain_ends k s (getParent s m)"
      by simp
  qed
qed

lemma cycle_parents:
  "getParent cycle (Suc 0) = NodeRef 2" "getParent cycle 2 = NodeRef (Suc 0)"
  by (simp_all add: cycle_def cycle_half_def getParent_def update_node_def)

lemma cycle_chain_never_ends:
  "\<not> chain_ends k cycle (NodeRef (Suc 0)) \<and> \<not> chain_ends k cycle (NodeRef 2)"
  by (induction k) (simp_all add: instanceof_Drawable_def cycle_parents)

lemma cycle_built:
  "setParent 2 (NodeRef (Suc 0)) fresh = Returned cycle_half"
  "setParent (Suc 0) (NodeRef 2) cycle_half = Returned cycle"
  by (simp_all add: setParent_def cycle_def cycle_half_def instanceof_DrawableContainer_def
      fresh_def new_Drawable_def update_node_def)

subsection \<open>The scenes\<close>

lemma scene_AB_eq:
  "scene_AB =
     update_node 0 (\<lambda>d. d\<lparr>parent := NodeRef 1\<rparr>)
       (setHeight 0 (Finite 30) (setWidth 0 (Finite 20) (setY 0 (Finite 5) (setX 0 (Finite 10)
         (setY 1 (Finite 50) (setX 1 (Finite 100) fresh))))))"
  by (simp add: scene_AB_def setParent_def state_of_def instanceof_DrawableContainer_def
      setHeight_def setWidth_def setX_def setY_def update_node_def fresh_def new_Drawable_def)

lemma scene_AB_nodes:
  "nodes scene_AB 0 =
     \<lparr>bounds = \<lparr>minX = Finite 10, minY = Finite 5, width = Finite 20, height = Finite 30\<rparr>,
      parent = NodeRef (Suc 0), matrix = new_Matrix, lock = new_Lock, valid = False,
      container = False\<rparr>"
  "nodes scene_AB (Suc 0) =
     \<lparr>bounds = \<lparr>minX = Finite 100, minY = Finite 50, width = Finite 0, height = Finite 0\<rparr>,
      parent = Null, matrix = new_Matrix, lock = new_Lock, valid = False, container = True\<rparr>"
  by (simp_all add: scene_AB_eq setHeight_def setWidth_def setX_def setY_def update_node_def
      fresh_def new_Drawable_def new_Bounds_def)

lemma scene_AB_chain:
  "chain_ends (Suc 0) scene_AB (getParent scene_AB 0)"
  "ancestors (Suc 0) scene_AB (getParent scene_AB 0) = [Suc 0]"
  by (simp_all add: getParent_def scene_AB_nodes instanceof_Drawable_def)

lemma scene_ABC_nodes:
  "nodes scene_ABC 0 = nodes scene_AB 0"
  "nodes scene_ABC (Suc 0) = (nodes scene_AB (Suc 0))\<lparr>parent := NodeRef 2\<rparr>"
  "nodes scene_ABC 2 =
     \<lparr>bounds = \<lparr>minX = Finite 1000, minY = Finite (- 500), width = Finite 0, height = Finite 0\<rparr>,
      parent = Null, matrix = new_Matrix, lock = new_Lock, valid = False, container = True\<rparr>"
  by (simp_all add: scene_ABC_def scene_AB_eq setParent_def state_of_def
      instanceof_DrawableContainer_def setHeight_def setWidth_def setX_def setY_def
      update_node_def fresh_def new_Drawable_def new_Bounds_def)

lemma scene_ABC_chain:
  "chain_ends (Suc (Suc 0)) scene_ABC (getParent scene_ABC 0)"
  "ancestors (Suc (Suc 0)) scene_ABC (getParent scene_ABC 0) = [Suc 0, 2]"
  by (simp_all add: getParent_def scene_ABC_nodes scene_AB_nodes instanceof_Drawable_def)

lemma scene_one_parent_nodes:
  "getParent (scene_one_parent x y) 0 = NodeRef (Suc 0)"
  "getParent (scene_one_parent x y) (Suc 0) = Null"
  "getX (scene_one_parent x y) (Suc 0) = x"
  "getY (scene_one_parent x y) (Suc 0) = y"
  by (simp_all add: scene_one_parent_def setParent_def state_of_def
      instanceof_DrawableContainer_def setX_def setY_def getX_def getY_def getParent_def
      update_node_def fresh_def new_Drawable_def)

lemma scene_one_parent_chain:
  "chain_ends (Suc 0) (scene_one_parent x y) (getParent (scene_one_parent x y) 0)"
  "ancestors (Suc 0) (scene_one_parent x y) (getParent (scene_one_parent x y) 0) = [Suc 0]"
  by (simp_all add: scene_one_parent_nodes instanceof_Drawable_def)

lemma scene_two_parents_nodes:
  "getParent (scene_two_parents x y x' y') 0 = NodeRef (Suc 0)"
  "getParent (scene_two_parents x y x' y') (Suc 0) = NodeRef 2"
  "getParent (scene_two_parents x y x' y') 2 = Null"
  "getX (scene_two_parents x y x' y') (Suc 0) = x"
  "getY (scene_two_parents x y x' y') (Suc 0) = y"
  "getX (scene_two_parents x y x' y') 2 = x'"
  "getY (scene_two_parents x y x' y') 2 = y'"
  by (simp_all add: scene_two_parents_def scene_one_parent_def setParent_def state_of_def
      instanceof_DrawableContainer_def setX_def setY_def getX_def getY_def getParent_def
      update_node_def fresh_def new_Drawable_def)

lemma scene_two_parents_chain:
  "chain_ends (Suc (Suc 0)) (scene_two_parents x y x' y')
     (getParent (scene_two_parents x y x' y') 0)"
  "ancestors (Suc (Suc 0)) (scene_two_parents x y x' y')
     (getParent (scene_two_parents x y x' y') 0) = [Suc 0, 2]"
  by (simp_all add: scene_two_parents_nodes instanceof_Drawable_def)

subsection \<open>The draw protocol\<close>

text \<open>
  C1, as the code has it: a call of \<^verbatim>\<open>draw(canvas)\<close> that returns ends with the node
  valid, and setting \<open>valid\<close> is its last step. It returns when the lock is already held
  (the paint hook is skipped and only \<open>valid\<close> changes) and when the lock is free and the
  paint hook returns (the lock is released, then \<open>valid\<close> is set, on the state the hook
  left). When the paint hook throws, \<^verbatim>\<open>draw\<close> throws the same error in the state the
  hook left: it does not release the lock and does not set \<open>valid\<close>.
\<close>

theorem draw_returns_valid:
  "(isLocked (lock (nodes s n)) \<longrightarrow>
      draw (Suc k) hook n canvas s =
        Some (Returned (update_node n (\<lambda>d. d\<lparr>valid := True\<rparr>) s))) \<and>
   (\<not> isLocked (lock (nodes s n)) \<and>
    hook (draw k hook) n canvas (with_lock_held n s) = Some (Returned s') \<longrightarrow>
      draw (Suc k) hook n canvas s =
        Some (Returned
          (update_node n (\<lambda>d. d\<lparr>valid := True\<rparr>)
            (update_node n (\<lambda>d. d\<lparr>lock := unlock (lock d)\<rparr>) s')))) \<and>
   (\<not> isLocked (lock (nodes s n)) \<and>
    hook (draw k hook) n canvas (with_lock_held n s) = Some (Thrown e s'') \<longrightarrow>
      draw (Suc k) hook n canvas s = Some (Thrown e s'')) \<and>
   (draw j hook n canvas s = Some (Returned t) \<longrightarrow> isValid t n)"
  by (simp add: draw_lock_held draw_lock_free draw_returned_valid)

theorem draw_returns_valid_witness:
  "isLocked (lock (nodes (with_lock_held 0 fresh) 0)) \<and>
   draw (Suc 0) (moving_onDraw (Finite 3)) 0 Undefined (with_lock_held 0 fresh) =
     Some (Returned (update_node 0 (\<lambda>d. d\<lparr>valid := True\<rparr>) (with_lock_held 0 fresh))) \<and>
   \<not> isLocked (lock (nodes fresh 0)) \<and>
   moving_onDraw (Finite 3) (draw 0 (moving_onDraw (Finite 3))) 0 Undefined (with_lock_held 0 fresh) =
     Some (Returned (setX 0 (Finite 3) (with_lock_held 0 fresh))) \<and>
   draw (Suc 0) (moving_onDraw (Finite 3)) 0 Undefined fresh =
     Some (Returned
       (update_node 0 (\<lambda>d. d\<lparr>valid := True\<rparr>)
         (update_node 0 (\<lambda>d. d\<lparr>lock := unlock (lock d)\<rparr>)
           (setX 0 (Finite 3) (with_lock_held 0 fresh))))) \<and>
   isValid
     (update_node 0 (\<lambda>d. d\<lparr>valid := True\<rparr>)
       (update_node 0 (\<lambda>d. d\<lparr>lock := unlock (lock d)\<rparr>)
         (setX 0 (Finite 3) (with_lock_held 0 fresh)))) 0 \<and>
   redraw_and_throw_onDraw (draw (Suc 0) redraw_and_throw_onDraw) 0 Undefined
       (with_lock_held 0 fresh) =
     Some (Thrown (Error ''painting failed'')
       (update_node 0 (\<lambda>d. d\<lparr>valid := True\<rparr>) (with_lock_held 0 fresh))) \<and>
   draw (Suc (Suc 0)) redraw_and_throw_onDraw 0 Undefined fresh =
     Some (Thrown (Error ''painting failed'')
       (update_node 0 (\<lambda>d. d\<lparr>valid := True\<rparr>) (with_lock_held 0 fresh)))"
proof -
  let ?hook = "moving_onDraw (Finite 3)"
  let ?t = "update_node 0 (\<lambda>d. d\<lparr>valid := True\<rparr>)
       (update_node 0 (\<lambda>d. d\<lparr>lock := unlock (lock d)\<rparr>)
         (setX 0 (Finite 3) (with_lock_held 0 fresh)))"
  let ?e = "Error ''painting failed''"
  let ?u = "update_node 0 (\<lambda>d. d\<lparr>valid := True\<rparr>) (with_lock_held 0 fresh)"
  have held: "isLocked (lock (nodes (with_lock_held 0 fresh) 0))"
    by (rule held_with_lock_held)
  have free: "\<not> isLocked (lock (nodes fresh 0))"
    by (rule fresh_lock_free)
  have paints: "?hook (draw 0 ?hook) 0 Undefined (with_lock_held 0 fresh) =
      Some (Returned (setX 0 (Finite 3) (with_lock_held 0 fresh)))"
    by (simp add: moving_onDraw_def)
  have fails: "redraw_and_throw_onDraw (draw (Suc 0) redraw_and_throw_onDraw) 0 Undefined
      (with_lock_held 0 fresh) = Some (Thrown ?e ?u)"
    by (simp add: redraw_and_throw_onDraw_def draw_lock_held held)
  from held draw_returns_valid [where s = "with_lock_held 0 fresh" and n = 0 and k = 0
      and hook = ?hook and canvas = Undefined]
  have skipped: "draw (Suc 0) ?hook 0 Undefined (with_lock_held 0 fresh) =
      Some (Returned (update_node 0 (\<lambda>d. d\<lparr>valid := True\<rparr>) (with_lock_held 0 fresh)))"
    by blast
  from free paints
    draw_returns_valid [where s = fresh and n = 0 and k = 0 and hook = ?hook
      and canvas = Undefined and s' = "setX 0 (Finite 3) (with_lock_held 0 fresh)"]
  have drawn: "draw (Suc 0) ?hook 0 Undefined fresh = Some (Returned ?t)"
    by blast
  from drawn draw_returns_valid [where s = fresh and n = 0 and hook = ?hook
      and canvas = Undefined and j = "Suc 0" and t = ?t]
  have valid: "isValid ?t 0"
    by blast
  from free fails
    draw_returns_valid [where s = fresh and n = 0 and k = "Suc 0"
      and hook = redraw_and_throw_onDraw and canvas = Undefined and e = ?e and s'' = ?u]
  have thrown: "draw (Suc (Suc 0)) redraw_and_throw_onDraw 0 Undefined fresh = Some (Thrown ?e ?u)"
    by blast
  from held skipped free paints drawn valid fails thrown show ?thesis
    by blast
qed

text \<open>
  C1 as stated fails for a node whose class does not override \<^verbatim>\<open>onDraw\<close>: on a freshly
  constructed node \<^verbatim>\<open>draw\<close> throws the error of the base hook and the node is not
  valid afterwards.
\<close>

theorem draw_base_hook_not_valid:
  "draw (Suc 0) onDraw 0 Undefined fresh =
     Some (Thrown (Error ''This method must be implemented by a subclass.'') (with_lock_held 0 fresh)) \<and>
   \<not> isValid (with_lock_held 0 fresh) 0"
  by (simp add: draw_lock_free fresh_lock_free onDraw_def)
    (simp add: isValid_def with_lock_held_def update_node_def fresh_def new_Drawable_def)

text \<open>
  C2: a call of \<^verbatim>\<open>draw(canvas)\<close> on a node whose lock is held returns without
  throwing, whatever the paint hook is, and changes nothing but \<open>valid\<close>: the hook is not
  invoked. When the paint hook calls \<^verbatim>\<open>this.draw(canvas)\<close> from its body, between
  \<open>before\<close> and \<open>after\<close>, and the lock is still held at that point, the outer call
  returns the state in which \<open>before\<close> and \<open>after\<close> ran once each: the hook ran once,
  the node is valid and the lock is free. Whatever the paint hook does, a call on a node
  whose lock is free leaves, when it returns, the node valid and the lock free.
\<close>

theorem draw_reentrant:
  "(isLocked (lock (nodes s n)) \<longrightarrow>
      draw (Suc k) hook n canvas s =
        Some (Returned (update_node n (\<lambda>d. d\<lparr>valid := True\<rparr>) s))) \<and>
   (\<not> isLocked (lock (nodes s n)) \<and>
    isLocked (lock (nodes (before (with_lock_held n s)) n)) \<longrightarrow>
      draw (Suc (Suc k)) (reentrant_onDraw before after) n canvas s =
        Some (Returned (reentrant_result before after n s)) \<and>
      isValid (reentrant_result before after n s) n \<and>
      \<not> isLocked (lock (nodes (reentrant_result before after n s) n))) \<and>
   (\<not> isLocked (lock (nodes s n)) \<and> draw j hook n canvas s = Some (Returned t) \<longrightarrow>
      isValid t n \<and> \<not> isLocked (lock (nodes t n)))"
proof (intro conjI impI)
  assume "isLocked (lock (nodes s n))"
  then show "draw (Suc k) hook n canvas s =
      Some (Returned (update_node n (\<lambda>d. d\<lparr>valid := True\<rparr>) s))"
    by (rule draw_lock_held)
next
  assume a: "\<not> isLocked (lock (nodes s n)) \<and>
    isLocked (lock (nodes (before (with_lock_held n s)) n))"
  then have nested:
    "draw (Suc k) (reentrant_onDraw before after) n canvas (before (with_lock_held n s)) =
      Some (Returned (update_node n (\<lambda>d. d\<lparr>valid := True\<rparr>) (before (with_lock_held n s))))"
    by (simp add: draw_lock_held)
  from a show "draw (Suc (Suc k)) (reentrant_onDraw before after) n canvas s =
      Some (Returned (reentrant_result before after n s))"
    by (subst draw_lock_free) (simp_all add: reentrant_onDraw_def reentrant_result_def nested)
  show "isValid (reentrant_result before after n s) n"
    by (simp add: reentrant_result_def isValid_def update_node_def)
  show "\<not> isLocked (lock (nodes (reentrant_result before after n s) n))"
    by (simp add: reentrant_result_def isLocked_def update_node_def unlock_def)
next
  assume outer: "\<not> isLocked (lock (nodes s n)) \<and> draw j hook n canvas s = Some (Returned t)"
  then show "isValid t n"
    by (blast dest: draw_returned_valid)
  from outer show "\<not> isLocked (lock (nodes t n))"
    by (blast dest: draw_lock_free_returned)
qed

theorem draw_reentrant_witness:
  "isLocked (lock (nodes (setX 0 (Finite 3) (with_lock_held 0 fresh)) 0)) \<and>
   draw (Suc 0) (reentrant_onDraw (setX 0 (Finite 3)) (setY 0 (Finite 4))) 0 Undefined
       (setX 0 (Finite 3) (with_lock_held 0 fresh)) =
     Some (Returned
       (update_node 0 (\<lambda>d. d\<lparr>valid := True\<rparr>) (setX 0 (Finite 3) (with_lock_held 0 fresh)))) \<and>
   \<not> isLocked (lock (nodes fresh 0)) \<and>
   draw (Suc (Suc 0)) (reentrant_onDraw (setX 0 (Finite 3)) (setY 0 (Finite 4))) 0 Undefined fresh =
     Some (Returned (reentrant_result (setX 0 (Finite 3)) (setY 0 (Finite 4)) 0 fresh)) \<and>
   nodes (reentrant_result (setX 0 (Finite 3)) (setY 0 (Finite 4)) 0 fresh) 0 =
     \<lparr>bounds = \<lparr>minX = Finite 3, minY = Finite 4, width = Finite 0, height = Finite 0\<rparr>,
      parent = Null, matrix = Matrix 1 0 0 1 0 0, lock = \<lparr>held = False\<rparr>, valid = True,
      container = False\<rparr> \<and>
   isValid (reentrant_result (setX 0 (Finite 3)) (setY 0 (Finite 4)) 0 fresh) 0"
proof -
  let ?before = "setX 0 (Finite 3)"
  let ?after = "setY 0 (Finite 4)"
  let ?hook = "reentrant_onDraw ?before ?after"
  let ?inner = "?before (with_lock_held 0 fresh)"
  have held: "isLocked (lock (nodes ?inner 0))"
    by (simp add: setX_def with_lock_held_def update_node_def isLocked_def)
  have free: "\<not> isLocked (lock (nodes fresh 0))"
    by (rule fresh_lock_free)
  from held draw_reentrant [where s = ?inner and n = 0 and k = 0 and hook = ?hook
      and canvas = Undefined and before = ?before and after = ?after]
  have nested: "draw (Suc 0) ?hook 0 Undefined ?inner =
      Some (Returned (update_node 0 (\<lambda>d. d\<lparr>valid := True\<rparr>) ?inner))"
    by blast
  from free held draw_reentrant [where s = fresh and n = 0 and k = 0 and hook = ?hook
      and canvas = Undefined and before = ?before and after = ?after]
  have outer: "draw (Suc (Suc 0)) ?hook 0 Undefined fresh =
      Some (Returned (reentrant_result ?before ?after 0 fresh))"
    by blast
  have final: "nodes (reentrant_result ?before ?after 0 fresh) 0 =
     \<lparr>bounds = \<lparr>minX = Finite 3, minY = Finite 4, width = Finite 0, height = Finite 0\<rparr>,
      parent = Null, matrix = Matrix 1 0 0 1 0 0, lock = \<lparr>held = False\<rparr>, valid = True,
      container = False\<rparr>"
    by (simp add: reentrant_result_def setX_def setY_def with_lock_held_def update_node_def
        fresh_def new_Drawable_def new_Bounds_def new_Matrix_def new_Lock_def unlock_def)
  from free outer
    draw_reentrant [where s = fresh and n = 0 and hook = ?hook and canvas = Undefined
      and j = "Suc (Suc 0)" and t = "reentrant_result ?before ?after 0 fresh"]
  have ended: "isValid (reentrant_result ?before ?after 0 fresh) 0"
    by blast
  from held nested free outer final ended show ?thesis
    by blast
qed




subsection \<open>Invalidation\<close>




text \<open>
  C3: a change notification of the transform that arrives while the lock of the node is
  held does nothing: the state, with \<open>valid\<close> and the dispatched events, is unchanged.
  The same notification while the lock is free calls \<^verbatim>\<open>invalidate()\<close>, which dispatches
  one InvalidateEvent to the listeners; with no listener the node is invalid afterwards.
  So a paint hook that changes the transform dispatches nothing during \<^verbatim>\<open>draw\<close>.
\<close>

theorem onPropertyChange_lock:
  "(isLocked (lock (nodes s n)) \<longrightarrow> onPropertyChange L n event s = Some (Returned s)) \<and>
   (\<not> isLocked (lock (nodes s n)) \<longrightarrow>
      onPropertyChange L n event s = invalidate L n s \<and>
      invalidate L n s =
        run_listeners (L n ''invalidate'') (new_InvalidateEvent ''invalidate'' (NodeRef n))
          (invalidated n s) \<and>
      \<not> isValid (invalidated n s) n \<and>
      dispatched (invalidated n s) =
        dispatched s @ [(n, ''invalidate'', new_InvalidateEvent ''invalidate'' (NodeRef n))] \<and>
      draw (Suc k) (notifying_onDraw L event) n canvas s =
        Some (Returned (update_node n (\<lambda>d. d\<lparr>valid := True\<rparr>) s)) \<and>
      dispatched (update_node n (\<lambda>d. d\<lparr>valid := True\<rparr>) s) = dispatched s) \<and>
   (\<not> isLocked (lock (nodes s n)) \<and> L n ''invalidate'' = [] \<longrightarrow>
      onPropertyChange L n event s = Some (Returned (invalidated n s)))"
proof (intro conjI impI)
  assume "isLocked (lock (nodes s n))"
  then show "onPropertyChange L n event s = Some (Returned s)"
    by (rule onPropertyChange_lock_held)
next
  assume free: "\<not> isLocked (lock (nodes s n))"
  then show "onPropertyChange L n event s = invalidate L n s"
    by (simp add: onPropertyChange_def)
  show "invalidate L n s =
      run_listeners (L n ''invalidate'') (new_InvalidateEvent ''invalidate'' (NodeRef n))
        (invalidated n s)"
    by (rule invalidate_eq)
  show "\<not> isValid (invalidated n s) n"
    by (rule invalidated_invalid)
  show "dispatched (invalidated n s) =
      dispatched s @ [(n, ''invalidate'', new_InvalidateEvent ''invalidate'' (NodeRef n))]"
    by (simp add: invalidated_def update_node_def)
  from free show "draw (Suc k) (notifying_onDraw L event) n canvas s =
      Some (Returned (update_node n (\<lambda>d. d\<lparr>valid := True\<rparr>) s))"
    by (rule draw_notifying)
  show "dispatched (update_node n (\<lambda>d. d\<lparr>valid := True\<rparr>) s) = dispatched s"
    by (simp add: update_node_def)
next
  assume "\<not> isLocked (lock (nodes s n)) \<and> L n ''invalidate'' = []"
  then show "onPropertyChange L n event s = Some (Returned (invalidated n s))"
    by (simp add: onPropertyChange_def invalidate_eq)
qed

theorem onPropertyChange_lock_witness:
  "isLocked (lock (nodes (with_lock_held 0 fresh) 0)) \<and>
   onPropertyChange no_listeners 0 ''change'' (with_lock_held 0 fresh) =
     Some (Returned (with_lock_held 0 fresh)) \<and>
   \<not> isLocked (lock (nodes fresh 0)) \<and>
   no_listeners 0 ''invalidate'' = [] \<and>
   onPropertyChange no_listeners 0 ''change'' fresh = Some (Returned (invalidated 0 fresh)) \<and>
   \<not> isValid (invalidated 0 fresh) 0 \<and>
   dispatched (invalidated 0 fresh) =
     [(0, ''invalidate'', \<lparr>event_type = ''invalidate'', target = NodeRef 0\<rparr>)] \<and>
   draw (Suc 0) (notifying_onDraw no_listeners ''change'') 0 Undefined fresh =
     Some (Returned (update_node 0 (\<lambda>d. d\<lparr>valid := True\<rparr>) fresh)) \<and>
   dispatched (update_node 0 (\<lambda>d. d\<lparr>valid := True\<rparr>) fresh) = []"
proof -
  note inst = onPropertyChange_lock [where L = no_listeners and n = 0 and event = "''change''"
      and k = 0 and canvas = Undefined]
  have held: "isLocked (lock (nodes (with_lock_held 0 fresh) 0))"
    by (rule held_with_lock_held)
  have free: "\<not> isLocked (lock (nodes fresh 0))"
    by (rule fresh_lock_free)
  have none: "no_listeners 0 ''invalidate'' = []"
    by (simp add: no_listeners_def)
  have log: "dispatched fresh = []"
    by (simp add: fresh_def)
  from held inst [where s = "with_lock_held 0 fresh"]
  have skipped: "onPropertyChange no_listeners 0 ''change'' (with_lock_held 0 fresh) =
      Some (Returned (with_lock_held 0 fresh))"
    by blast
  from free inst [where s = fresh]
  have "\<not> isValid (invalidated 0 fresh) 0 \<and>
    dispatched (invalidated 0 fresh) =
      dispatched fresh @ [(0, ''invalidate'', new_InvalidateEvent ''invalidate'' (NodeRef 0))] \<and>
    draw (Suc 0) (notifying_onDraw no_listeners ''change'') 0 Undefined fresh =
      Some (Returned (update_node 0 (\<lambda>d. d\<lparr>valid := True\<rparr>) fresh)) \<and>
    dispatched (update_node 0 (\<lambda>d. d\<lparr>valid := True\<rparr>) fresh) = dispatched fresh"
    by blast
  moreover from free none inst [where s = fresh]
  have "onPropertyChange no_listeners 0 ''change'' fresh = Some (Returned (invalidated 0 fresh))"
    by blast
  ultimately show ?thesis
    using held free skipped none log by (simp add: new_InvalidateEvent_def)
qed

subsection \<open>The parent reference\<close>

text \<open>
  C8: \<^verbatim>\<open>setParent(parent)\<close> throws a TypeError when \<open>parent\<close> is neither
  \<^verbatim>\<open>null\<close> nor a container, and then the state is the one before the call, so
  \<^verbatim>\<open>getParent()\<close> returns what it returned before. For \<^verbatim>\<open>null\<close> or a container it
  replaces the parent reference, whatever the old parent and whatever the new one (the
  node itself included).
\<close>

theorem setParent_guard:
  "(p \<noteq> Null \<and> \<not> instanceof_DrawableContainer s p \<longrightarrow>
      setParent n p s =
        Thrown (TypeError ''Drawable expects parent to be a cardmaker.DrawableContainer object'') s \<and>
      getParent (state_of (setParent n p s)) n = getParent s n) \<and>
   (p = Null \<or> instanceof_DrawableContainer s p \<longrightarrow>
      setParent n p s = Returned (update_node n (\<lambda>d. d\<lparr>parent := p\<rparr>) s) \<and>
      getParent (state_of (setParent n p s)) n = p)"
  by (auto simp: setParent_def state_of_def getParent_def update_node_def)

theorem setParent_guard_witness:
  "Number (Finite 7) \<noteq> Null \<and>
   \<not> instanceof_DrawableContainer (update_node 1 (\<lambda>d. d\<lparr>parent := NodeRef 2\<rparr>) fresh)
       (Number (Finite 7)) \<and>
   setParent 1 (Number (Finite 7)) (update_node 1 (\<lambda>d. d\<lparr>parent := NodeRef 2\<rparr>) fresh) =
     Thrown (TypeError ''Drawable expects parent to be a cardmaker.DrawableContainer object'')
       (update_node 1 (\<lambda>d. d\<lparr>parent := NodeRef 2\<rparr>) fresh) \<and>
   getParent (state_of (setParent 1 (Number (Finite 7))
       (update_node 1 (\<lambda>d. d\<lparr>parent := NodeRef 2\<rparr>) fresh))) 1
     = NodeRef 2 \<and>
   instanceof_DrawableContainer fresh (NodeRef 1) \<and>
   setParent 1 (NodeRef 1) fresh = Returned (update_node 1 (\<lambda>d. d\<lparr>parent := NodeRef 1\<rparr>) fresh) \<and>
   getParent (state_of (setParent 1 (NodeRef 1) fresh)) 1 = NodeRef 1"
proof -
  let ?s = "update_node 1 (\<lambda>d. d\<lparr>parent := NodeRef 2\<rparr>) fresh"
  let ?seven = "Number (Finite 7)"
  have bad: "?seven \<noteq> Null \<and> \<not> instanceof_DrawableContainer ?s ?seven"
    by (simp add: instanceof_DrawableContainer_def)
  have old: "getParent ?s 1 = NodeRef 2"
    by (simp add: getParent_def update_node_def)
  have good: "instanceof_DrawableContainer fresh (NodeRef 1)"
    by (simp add: instanceof_DrawableContainer_def fresh_def new_Drawable_def)
  from bad setParent_guard [of ?seven ?s 1]
  have rejected: "setParent 1 ?seven ?s =
      Thrown (TypeError ''Drawable expects parent to be a cardmaker.DrawableContainer object'') ?s \<and>
    getParent (state_of (setParent 1 ?seven ?s)) 1 = getParent ?s 1"
    by blast
  from good setParent_guard [of "NodeRef 1" fresh 1]
  have accepted: "setParent 1 (NodeRef 1) fresh =
      Returned (update_node 1 (\<lambda>d. d\<lparr>parent := NodeRef 1\<rparr>) fresh) \<and>
    getParent (state_of (setParent 1 (NodeRef 1) fresh)) 1 = NodeRef 1"
    by blast
  from rejected [THEN conjunct2] old
  have kept: "getParent (state_of (setParent 1 ?seven ?s)) 1 = NodeRef 2"
    by (rule trans)
  from bad good rejected kept accepted show ?thesis
    by blast
qed

subsection \<open>Position and size\<close>

text \<open>
  C9: each of \<^verbatim>\<open>setX\<close>, \<^verbatim>\<open>setY\<close>, \<^verbatim>\<open>setWidth\<close> and \<^verbatim>\<open>setHeight\<close> changes the
  one field of the bounds of its node that it names. It does not call
  \<^verbatim>\<open>invalidate()\<close>: \<open>valid\<close> keeps its value and nothing is dispatched. The parent,
  the transform, the lock and the class of the node, and every other node, are unchanged.
\<close>

theorem setters_frame:
  "bounds (nodes (setX n v s) n) = (bounds (nodes s n))\<lparr>minX := v\<rparr> \<and>
   bounds (nodes (setY n v s) n) = (bounds (nodes s n))\<lparr>minY := v\<rparr> \<and>
   bounds (nodes (setWidth n v s) n) = (bounds (nodes s n))\<lparr>width := v\<rparr> \<and>
   bounds (nodes (setHeight n v s) n) = (bounds (nodes s n))\<lparr>height := v\<rparr> \<and>
   (\<forall>s' \<in> {setX n v s, setY n v s, setWidth n v s, setHeight n v s}.
      same_but_bounds (nodes s n) (nodes s' n) \<and>
      isValid s' n = isValid s n \<and>
      dispatched s' = dispatched s \<and>
      (\<forall>m. m \<noteq> n \<longrightarrow> nodes s' m = nodes s m))"
  by (simp add: setX_def setY_def setWidth_def setHeight_def update_node_def same_but_bounds_def
      isValid_def)

theorem setters_frame_witness:
  "setX 0 (Finite 7) scene_AB \<in>
     {setX 0 (Finite 7) scene_AB, setY 0 (Finite 7) scene_AB, setWidth 0 (Finite 7) scene_AB,
      setHeight 0 (Finite 7) scene_AB} \<and>
   (0::nat) \<noteq> Suc 0 \<and>
   bounds (nodes (setX 0 (Finite 7) scene_AB) 0) =
     \<lparr>minX = Finite 7, minY = Finite 5, width = Finite 20, height = Finite 30\<rparr> \<and>
   same_but_bounds (nodes scene_AB 0) (nodes (setX 0 (Finite 7) scene_AB) 0) \<and>
   isValid (setX 0 (Finite 7) scene_AB) 0 = isValid scene_AB 0 \<and>
   dispatched (setX 0 (Finite 7) scene_AB) = dispatched scene_AB \<and>
   nodes (setX 0 (Finite 7) scene_AB) (Suc 0) = nodes scene_AB (Suc 0)"
proof -
  let ?v = "Finite 7"
  have mem: "setX 0 ?v scene_AB \<in>
      {setX 0 ?v scene_AB, setY 0 ?v scene_AB, setWidth 0 ?v scene_AB, setHeight 0 ?v scene_AB}"
    by simp
  have other: "Suc 0 \<noteq> (0::nat)"
    by simp
  from setters_frame [of 0 ?v scene_AB]
  have "bounds (nodes (setX 0 ?v scene_AB) 0) = (bounds (nodes scene_AB 0))\<lparr>minX := ?v\<rparr>"
    by blast
  then have moved: "bounds (nodes (setX 0 ?v scene_AB) 0) =
      \<lparr>minX = Finite 7, minY = Finite 5, width = Finite 20, height = Finite 30\<rparr>"
    by (simp add: scene_AB_nodes)
  from mem other setters_frame [of 0 ?v scene_AB]
  have rest: "same_but_bounds (nodes scene_AB 0) (nodes (setX 0 ?v scene_AB) 0) \<and>
      isValid (setX 0 ?v scene_AB) 0 = isValid scene_AB 0 \<and>
      dispatched (setX 0 ?v scene_AB) = dispatched scene_AB \<and>
      nodes (setX 0 ?v scene_AB) (Suc 0) = nodes scene_AB (Suc 0)"
    by blast
  from mem moved rest show ?thesis
    by simp
qed

subsection \<open>Coordinate conversion\<close>

text \<open>
  C6, as the code has it: \<^verbatim>\<open>localToGlobal(point)\<close> returns the point to which the
  origin (minX, minY) of every ancestor on the parent chain has been added, one ancestor
  after the other from the parent upward, in Number arithmetic; the origin of the node
  itself is not added. \<^verbatim>\<open>getBounds()\<close> is the local rectangle moved to the node's
  origin converted in this way. When the coordinates of the point and the origins are
  integers and every partial sum is at most \<open>2 ^ 53\<close> in magnitude, the result is the
  point translated by the sum of the origins. A node with no parent gets its point back.
  For A at (10, 5) under the parentless B at (100, 50), \<^verbatim>\<open>A.localToGlobal(Point(0,0))\<close>
  is \<^verbatim>\<open>Point(100,50)\<close> and \<^verbatim>\<open>A.getBounds()\<close> has minX 110 and minY 55, with the
  width and height of A.
\<close>

theorem localToGlobal_sums_ancestors:
  "(chain_ends k s (getParent s n) \<longrightarrow>
      localToGlobal s n p = Some (add_origins s p (ancestors k s (getParent s n))) \<and>
      getBounds s n =
        Some \<lparr>minX = getX_point (add_origins s (Point (getX s n) (getY s n))
                        (ancestors k s (getParent s n))),
              minY = getY_point (add_origins s (Point (getX s n) (getY s n))
                        (ancestors k s (getParent s n))),
              width = getWidth s n, height = getHeight s n\<rparr>) \<and>
   (chain_ends k s (getParent s n) \<and>
    p = Point (number_of_int px) (number_of_int py) \<and>
    map (getX s) (ancestors k s (getParent s n)) = map number_of_int xs \<and>
    map (getY s) (ancestors k s (getParent s n)) = map number_of_int ys \<and>
    partial_sums_safe px xs \<and> partial_sums_safe py ys \<longrightarrow>
      localToGlobal s n p =
        Some (Point (number_of_int (px + sum_list xs)) (number_of_int (py + sum_list ys)))) \<and>
   (getParent s n = Null \<longrightarrow> localToGlobal s n p = Some p) \<and>
   localToGlobal scene_AB 0 (Point (Finite 0) (Finite 0)) = Some (Point (Finite 100) (Finite 50)) \<and>
   getBounds scene_AB 0 =
     Some \<lparr>minX = Finite 110, minY = Finite 55, width = Finite 20, height = Finite 30\<rparr> \<and>
   getWidth scene_AB 0 = Finite 20 \<and> getHeight scene_AB 0 = Finite 30"
proof (intro conjI impI)
  assume chain: "chain_ends k s (getParent s n)"
  then show "localToGlobal s n p = Some (add_origins s p (ancestors k s (getParent s n)))"
    by (rule localToGlobal_chain)
  from chain show "getBounds s n =
        Some \<lparr>minX = getX_point (add_origins s (Point (getX s n) (getY s n))
                        (ancestors k s (getParent s n))),
              minY = getY_point (add_origins s (Point (getX s n) (getY s n))
                        (ancestors k s (getParent s n))),
              width = getWidth s n, height = getHeight s n\<rparr>"
    by (simp add: getBounds_def localToGlobal_chain getLocalBounds_def createFromBounds_def
        new_Bounds_def)
next
  assume a: "chain_ends k s (getParent s n) \<and>
    p = Point (number_of_int px) (number_of_int py) \<and>
    map (getX s) (ancestors k s (getParent s n)) = map number_of_int xs \<and>
    map (getY s) (ancestors k s (getParent s n)) = map number_of_int ys \<and>
    partial_sums_safe px xs \<and> partial_sums_safe py ys"
  then have chain: "chain_ends k s (getParent s n)"
    and p: "p = Point (number_of_int px) (number_of_int py)"
    and xs: "map (getX s) (ancestors k s (getParent s n)) = map number_of_int xs"
    and ys: "map (getY s) (ancestors k s (getParent s n)) = map number_of_int ys"
    and safe: "partial_sums_safe px xs" "partial_sums_safe py ys"
    by blast+
  show "localToGlobal s n p =
      Some (Point (number_of_int (px + sum_list xs)) (number_of_int (py + sum_list ys)))"
    by (simp only: localToGlobal_chain [OF chain] p add_origins_coordinates xs ys
        foldl_number_add_safe [OF safe(1)] foldl_number_add_safe [OF safe(2)])
next
  assume "getParent s n = Null"
  then have root: "chain_ends 0 s (getParent s n)"
    by (simp add: instanceof_Drawable_def)
  from localToGlobal_chain [OF root] show "localToGlobal s n p = Some p"
    by (simp add: add_origins_def)
next
  have sum_x: "number_add (Finite 0) (Finite 100) = Finite 100"
    and sum_y: "number_add (Finite 0) (Finite 50) = Finite 50"
    and box_x: "number_add (Finite 10) (Finite 100) = Finite 110"
    and box_y: "number_add (Finite 5) (Finite 50) = Finite 55"
    using number_add_safe [of 0 100] number_add_safe [of 0 50]
      number_add_safe [of 10 100] number_add_safe [of 5 50]
    by (simp_all add: number_of_int_def)
  show "localToGlobal scene_AB 0 (Point (Finite 0) (Finite 0)) = Some (Point (Finite 100) (Finite 50))"
    by (simp only: localToGlobal_chain [OF scene_AB_chain(1)] scene_AB_chain)
      (simp del: number_add.simps
        add: add_origins_def add_def getX_def getY_def scene_AB_nodes sum_x sum_y)
  show "getBounds scene_AB 0 =
      Some \<lparr>minX = Finite 110, minY = Finite 55, width = Finite 20, height = Finite 30\<rparr>"
    by (simp only: getBounds_def localToGlobal_chain [OF scene_AB_chain(1)] scene_AB_chain)
      (simp del: number_add.simps
        add: add_origins_def add_def getLocalBounds_def createFromBounds_def new_Bounds_def
          getX_def getY_def getWidth_def getHeight_def scene_AB_nodes box_x box_y)
  show "getWidth scene_AB 0 = Finite 20"
    by (simp add: getWidth_def scene_AB_nodes)
  show "getHeight scene_AB 0 = Finite 30"
    by (simp add: getHeight_def scene_AB_nodes)
qed

theorem localToGlobal_sums_ancestors_witness:
  "chain_ends (Suc (Suc 0)) scene_ABC (getParent scene_ABC 0) \<and>
   Point (Finite 1) (Finite 2) = Point (number_of_int 1) (number_of_int 2) \<and>
   map (getX scene_ABC) (ancestors (Suc (Suc 0)) scene_ABC (getParent scene_ABC 0)) =
     map number_of_int [100, 1000] \<and>
   map (getY scene_ABC) (ancestors (Suc (Suc 0)) scene_ABC (getParent scene_ABC 0)) =
     map number_of_int [50, - 500] \<and>
   partial_sums_safe 1 [100, 1000] \<and> partial_sums_safe 2 [50, - 500] \<and>
   localToGlobal scene_ABC 0 (Point (Finite 1) (Finite 2)) =
     Some (Point (Finite 1101) (Finite (- 448))) \<and>
   getParent scene_ABC 2 = Null \<and>
   localToGlobal scene_ABC 2 (Point (Finite 1) (Finite 2)) = Some (Point (Finite 1) (Finite 2))"
proof -
  let ?p = "Point (Finite 1) (Finite 2)"
  note inst = localToGlobal_sums_ancestors [where k = "Suc (Suc 0)" and s = scene_ABC
      and p = ?p and px = 1 and py = 2 and xs = "[100, 1000]" and ys = "[50, - 500]"]
  have chain: "chain_ends (Suc (Suc 0)) scene_ABC (getParent scene_ABC 0)"
    by (rule scene_ABC_chain)
  have point: "?p = Point (number_of_int 1) (number_of_int 2)"
    by (simp add: number_of_int_def)
  have xs: "map (getX scene_ABC) (ancestors (Suc (Suc 0)) scene_ABC (getParent scene_ABC 0)) =
      map number_of_int [100, 1000]"
    by (simp only: scene_ABC_chain)
      (simp add: getX_def scene_ABC_nodes scene_AB_nodes number_of_int_def)
  have ys: "map (getY scene_ABC) (ancestors (Suc (Suc 0)) scene_ABC (getParent scene_ABC 0)) =
      map number_of_int [50, - 500]"
    by (simp only: scene_ABC_chain)
      (simp add: getY_def scene_ABC_nodes scene_AB_nodes number_of_int_def)
  have safe: "partial_sums_safe 1 [100, 1000] \<and> partial_sums_safe 2 [50, - 500]"
    by simp
  have root: "getParent scene_ABC 2 = Null"
    by (simp add: getParent_def scene_ABC_nodes)
  from chain point xs ys safe inst [where n = 0]
  have "localToGlobal scene_ABC 0 ?p =
      Some (Point (number_of_int (1 + sum_list [100, 1000]))
                  (number_of_int (2 + sum_list [50, - 500])))"
    by blast
  then have up: "localToGlobal scene_ABC 0 ?p = Some (Point (Finite 1101) (Finite (- 448)))"
    by (simp add: number_of_int_def)
  from root inst [where n = 2]
  have same: "localToGlobal scene_ABC 2 ?p = Some ?p"
    by blast
  from chain point xs ys safe up root same show ?thesis
    by blast
qed

text \<open>
  C6 as stated fails where an addition rounds. With A under B at (\<open>2 ^ 53\<close>, 0) under C at
  (\<open>- (2 ^ 53)\<close>, 0) the origins of the ancestors sum to (0, 0), which leaves a point where it
  is, but \<^verbatim>\<open>A.localToGlobal(Point(1,0))\<close> is \<^verbatim>\<open>Point(0,0)\<close>: 1 + \<open>2 ^ 53\<close> is rounded
  to \<open>2 ^ 53\<close>.
\<close>

theorem localToGlobal_rounds:
  "localToGlobal
     (scene_two_parents (Finite 9007199254740992) (Finite 0) (Finite (- 9007199254740992)) (Finite 0))
     0 (Point (Finite 1) (Finite 0)) = Some (Point (Finite 0) (Finite 0)) \<and>
   number_add (Finite 9007199254740992) (Finite (- 9007199254740992)) = Finite 0 \<and>
   number_add (Finite 0) (Finite 0) = Finite 0 \<and>
   add (Point (Finite 1) (Finite 0)) (Finite 0) (Finite 0) = Point (Finite 1) (Finite 0)"
proof -
  have rounds: "number_add (Finite 1) (Finite 9007199254740992) = Finite 9007199254740992"
    by code_simp
  have cancels: "number_add (Finite 9007199254740992) (Finite (- 9007199254740992)) = Finite 0"
    by code_simp
  have zero: "number_add (Finite 0) (Finite 0) = Finite 0"
    by code_simp
  have one: "number_add (Finite 1) (Finite 0) = Finite 1"
    by code_simp
  show ?thesis
    by (simp only: localToGlobal_chain [OF scene_two_parents_chain(1)] scene_two_parents_chain)
      (simp del: number_add.simps
        add: add_origins_def add_def scene_two_parents_nodes rounds cancels zero one)
qed

text \<open>
  C5, as the code has it: for a node under \<open>k\<close> levels of ancestors whose offsets are
  integers, and for every point \<open>p\<close> with integer coordinates, such that on each axis
  the magnitudes of the coordinate of \<open>p\<close> and of the offsets add up to at most \<open>2 ^ 53\<close>,
  \<^verbatim>\<open>globalToLocal(localToGlobal(p))\<close> returns, and returns \<open>p\<close>.
\<close>

theorem coordinate_round_trip:
  "chain_ends k s (getParent s n) \<Longrightarrow>
   p = Point (number_of_int px) (number_of_int py) \<Longrightarrow>
   map (getX s) (ancestors k s (getParent s n)) = map number_of_int xs \<Longrightarrow>
   map (getY s) (ancestors k s (getParent s n)) = map number_of_int ys \<Longrightarrow>
   \<bar>px\<bar> + sum_list (map abs xs) \<le> 2 ^ 53 \<Longrightarrow>
   \<bar>py\<bar> + sum_list (map abs ys) \<le> 2 ^ 53 \<Longrightarrow>
   Option.bind (localToGlobal s n p) (globalToLocal s n) = Some p"
proof -
  assume chain: "chain_ends k s (getParent s n)"
    and p: "p = Point (number_of_int px) (number_of_int py)"
    and xs: "map (getX s) (ancestors k s (getParent s n)) = map number_of_int xs"
    and ys: "map (getY s) (ancestors k s (getParent s n)) = map number_of_int ys"
    and bound_x: "\<bar>px\<bar> + sum_list (map abs xs) \<le> 2 ^ 53"
    and bound_y: "\<bar>py\<bar> + sum_list (map abs ys) \<le> 2 ^ 53"
  let ?q = "Point (number_of_int (px + sum_list xs)) (number_of_int (py + sum_list ys))"
  have there: "localToGlobal s n p = Some ?q"
    by (simp only: localToGlobal_chain [OF chain] p add_origins_coordinates xs ys
        foldl_number_add_safe [OF magnitudes_partial_sums_safe [OF bound_x]]
        foldl_number_add_safe [OF magnitudes_partial_sums_safe [OF bound_y]])
  have and_back: "globalToLocal s n ?q = Some p"
    by (simp only: globalToLocal_chain [OF chain] p subtract_origins_coordinates xs ys
        foldl_number_sub_safe [OF bound_x] foldl_number_sub_safe [OF bound_y])
  from there and_back show ?thesis
    by simp
qed

theorem coordinate_round_trip_witness:
  "chain_ends (Suc (Suc 0)) scene_ABC (getParent scene_ABC 0) \<and>
   Point (Finite 3) (Finite (- 4)) = Point (number_of_int 3) (number_of_int (- 4)) \<and>
   map (getX scene_ABC) (ancestors (Suc (Suc 0)) scene_ABC (getParent scene_ABC 0)) =
     map number_of_int [100, 1000] \<and>
   map (getY scene_ABC) (ancestors (Suc (Suc 0)) scene_ABC (getParent scene_ABC 0)) =
     map number_of_int [50, - 500] \<and>
   \<bar>3\<bar> + sum_list (map abs [100, 1000]) \<le> (2::int) ^ 53 \<and>
   \<bar>- 4\<bar> + sum_list (map abs [50, - 500]) \<le> (2::int) ^ 53 \<and>
   localToGlobal scene_ABC 0 (Point (Finite 3) (Finite (- 4))) =
     Some (Point (Finite 1103) (Finite (- 454))) \<and>
   Option.bind (localToGlobal scene_ABC 0 (Point (Finite 3) (Finite (- 4))))
       (globalToLocal scene_ABC 0) =
     Some (Point (Finite 3) (Finite (- 4)))"
proof -
  let ?p = "Point (Finite 3) (Finite (- 4))"
  have chain: "chain_ends (Suc (Suc 0)) scene_ABC (getParent scene_ABC 0)"
    by (rule scene_ABC_chain)
  have point: "?p = Point (number_of_int 3) (number_of_int (- 4))"
    by (simp add: number_of_int_def)
  have xs: "map (getX scene_ABC) (ancestors (Suc (Suc 0)) scene_ABC (getParent scene_ABC 0)) =
      map number_of_int [100, 1000]"
    by (simp only: scene_ABC_chain)
      (simp add: getX_def scene_ABC_nodes scene_AB_nodes number_of_int_def)
  have ys: "map (getY scene_ABC) (ancestors (Suc (Suc 0)) scene_ABC (getParent scene_ABC 0)) =
      map number_of_int [50, - 500]"
    by (simp only: scene_ABC_chain)
      (simp add: getY_def scene_ABC_nodes scene_AB_nodes number_of_int_def)
  have bound_x: "\<bar>3\<bar> + sum_list (map abs [100, 1000]) \<le> (2::int) ^ 53"
    by simp
  have bound_y: "\<bar>- 4\<bar> + sum_list (map abs [50, - 500]) \<le> (2::int) ^ 53"
    by simp
  have "localToGlobal scene_ABC 0 ?p =
      Some (Point (foldl number_add (number_of_int 3) (map number_of_int [100, 1000]))
                  (foldl number_add (number_of_int (- 4)) (map number_of_int [50, - 500])))"
    by (simp only: localToGlobal_chain [OF chain] point add_origins_coordinates xs ys)
  moreover have "partial_sums_safe 3 [100, 1000]" and "partial_sums_safe (- 4) [50, - 500]"
    by simp_all
  ultimately have there: "localToGlobal scene_ABC 0 ?p = Some (Point (Finite 1103) (Finite (- 454)))"
    by (simp only: foldl_number_add_safe) (simp add: number_of_int_def)
  from coordinate_round_trip [OF chain point xs ys bound_x bound_y]
  have round_trip: "Option.bind (localToGlobal scene_ABC 0 ?p) (globalToLocal scene_ABC 0) = Some ?p" .
  from chain point xs ys bound_x bound_y there round_trip show ?thesis
    by blast
qed

text \<open>
  C5 as stated fails where an addition rounds. Under a parent at (\<open>2 ^ 53\<close>, 0) the point
  (1, 0) comes back as (0, 0): 1 + \<open>2 ^ 53\<close> is rounded to \<open>2 ^ 53\<close>. Under a parent at (3, 0)
  the point (0.1, 0), whose coordinate is the Number 3602879701896397 / \<open>2 ^ 55\<close>, comes
  back with the coordinate 225179981368525 / \<open>2 ^ 51\<close>, which is another Number.
\<close>

theorem round_trip_rounds:
  "Option.bind
     (localToGlobal (scene_one_parent (Finite 9007199254740992) (Finite 0)) 0
        (Point (Finite 1) (Finite 0)))
     (globalToLocal (scene_one_parent (Finite 9007199254740992) (Finite 0)) 0) =
     Some (Point (Finite 0) (Finite 0)) \<and>
   Point (Finite 0) (Finite 0) \<noteq> Point (Finite 1) (Finite 0) \<and>
   Option.bind
     (localToGlobal (scene_one_parent (Finite 3) (Finite 0)) 0
        (Point (Finite (3602879701896397 / 36028797018963968)) (Finite 0)))
     (globalToLocal (scene_one_parent (Finite 3) (Finite 0)) 0) =
     Some (Point (Finite (225179981368525 / 2251799813685248)) (Finite 0)) \<and>
   Point (Finite (225179981368525 / 2251799813685248)) (Finite 0) \<noteq>
     Point (Finite (3602879701896397 / 36028797018963968)) (Finite 0)"
proof -
  have rounds: "number_add (Finite 1) (Finite 9007199254740992) = Finite 9007199254740992"
    by code_simp
  have returns: "number_sub (Finite 9007199254740992) (Finite 9007199254740992) = Finite 0"
    by code_simp
  have zero: "number_add (Finite 0) (Finite 0) = Finite 0" "number_sub (Finite 0) (Finite 0) = Finite 0"
    by code_simp+
  have tenth: "number_add (Finite (3602879701896397 / 36028797018963968)) (Finite 3) =
      Finite (6980579422424269 / 2251799813685248)"
    by code_simp
  have less: "number_sub (Finite (6980579422424269 / 2251799813685248)) (Finite 3) =
      Finite (225179981368525 / 2251799813685248)"
    by code_simp
  have differ: "Point (Finite (225179981368525 / 2251799813685248)) (Finite 0) \<noteq>
      Point (Finite (3602879701896397 / 36028797018963968)) (Finite 0)"
    by simp
  have far: "Option.bind
     (localToGlobal (scene_one_parent (Finite 9007199254740992) (Finite 0)) 0
        (Point (Finite 1) (Finite 0)))
     (globalToLocal (scene_one_parent (Finite 9007199254740992) (Finite 0)) 0) =
     Some (Point (Finite 0) (Finite 0))"
    by (simp only: localToGlobal_chain [OF scene_one_parent_chain(1)]
        globalToLocal_chain [OF scene_one_parent_chain(1)] scene_one_parent_chain)
      (simp del: number_add.simps
        add: globalToLocal_chain [OF scene_one_parent_chain(1)] scene_one_parent_chain
          add_origins_def subtract_origins_def add_def subtract_def
          scene_one_parent_nodes rounds returns zero)
  have near: "Option.bind
     (localToGlobal (scene_one_parent (Finite 3) (Finite 0)) 0
        (Point (Finite (3602879701896397 / 36028797018963968)) (Finite 0)))
     (globalToLocal (scene_one_parent (Finite 3) (Finite 0)) 0) =
     Some (Point (Finite (225179981368525 / 2251799813685248)) (Finite 0))"
    by (simp only: localToGlobal_chain [OF scene_one_parent_chain(1)]
        globalToLocal_chain [OF scene_one_parent_chain(1)] scene_one_parent_chain)
      (simp del: number_add.simps
        add: globalToLocal_chain [OF scene_one_parent_chain(1)] scene_one_parent_chain
          add_origins_def subtract_origins_def add_def subtract_def
          scene_one_parent_nodes tenth less zero)
  from far near differ show ?thesis
    by simp
qed

text \<open>
  C7 as stated fails: \<^verbatim>\<open>setParent\<close> accepts both calls that make two containers each
  other's parent, and on the chain they build neither \<^verbatim>\<open>localToGlobal\<close> nor
  \<^verbatim>\<open>globalToLocal\<close> terminates.
\<close>

theorem walk_cycle_diverges:
  "setParent 2 (NodeRef (Suc 0)) fresh = Returned cycle_half \<and>
   setParent (Suc 0) (NodeRef 2) cycle_half = Returned cycle \<and>
   localToGlobal cycle (Suc 0) (Point (Finite 0) (Finite 0)) = None \<and>
   globalToLocal cycle (Suc 0) (Point (Finite 0) (Finite 0)) = None"
proof -
  let ?p = "Point (Finite 0) (Finite 0)"
  have "localToGlobal cycle (Suc 0) ?p = None"
  proof (cases "localToGlobal cycle (Suc 0) ?p")
    case (Some q)
    then have "\<exists>k. chain_ends k cycle (NodeRef 2)"
      using localToGlobal_loop_returns [of cycle "NodeRef 2" ?p q]
      by (simp add: localToGlobal_def cycle_parents)
    with cycle_chain_never_ends show ?thesis
      by blast
  qed simp
  moreover have "globalToLocal cycle (Suc 0) ?p = None"
  proof (cases "globalToLocal cycle (Suc 0) ?p")
    case (Some q)
    then have "\<exists>k. chain_ends k cycle (NodeRef 2)"
      using globalToLocal_loop_returns [of cycle "NodeRef 2" ?p q]
      by (simp add: globalToLocal_def cycle_parents)
    with cycle_chain_never_ends show ?thesis
      by blast
  qed simp
  ultimately show ?thesis
    by (simp add: cycle_built)
qed

text \<open>
  C7, as the code has it: the walks of \<^verbatim>\<open>localToGlobal\<close> and \<^verbatim>\<open>globalToLocal\<close>
  terminate when the parent chain of the node reaches, after some number of drawable
  nodes, a reference that is no drawable node, and only then.
\<close>

theorem walk_terminates_iff_chain_ends:
  "(chain_ends k s (getParent s n) \<longrightarrow>
      localToGlobal s n p \<noteq> None \<and> globalToLocal s n p \<noteq> None) \<and>
   (localToGlobal s n p \<noteq> None \<or> globalToLocal s n p \<noteq> None \<longrightarrow>
      (\<exists>j. chain_ends j s (getParent s n)))"
proof (intro conjI impI)
  assume chain: "chain_ends k s (getParent s n)"
  then show "localToGlobal s n p \<noteq> None"
    by (simp add: localToGlobal_chain)
  from chain show "globalToLocal s n p \<noteq> None"
    by (simp add: globalToLocal_chain)
next
  assume "localToGlobal s n p \<noteq> None \<or> globalToLocal s n p \<noteq> None"
  then show "\<exists>j. chain_ends j s (getParent s n)"
    by (auto simp: localToGlobal_def globalToLocal_def
        dest: localToGlobal_loop_returns globalToLocal_loop_returns)
qed

theorem walk_terminates_iff_chain_ends_witness:
  "chain_ends (Suc 0) scene_AB (getParent scene_AB 0) \<and>
   localToGlobal scene_AB 0 (Point (Finite 0) (Finite 0)) \<noteq> None \<and>
   globalToLocal scene_AB 0 (Point (Finite 0) (Finite 0)) \<noteq> None \<and>
   (\<exists>j. chain_ends j scene_AB (getParent scene_AB 0))"
proof -
  let ?p = "Point (Finite 0) (Finite 0)"
  have chain: "chain_ends (Suc 0) scene_AB (getParent scene_AB 0)"
    by (rule scene_AB_chain)
  from chain walk_terminates_iff_chain_ends [of "Suc 0" scene_AB 0 ?p]
  have returns: "localToGlobal scene_AB 0 ?p \<noteq> None \<and> globalToLocal scene_AB 0 ?p \<noteq> None"
    by blast
  from returns walk_terminates_iff_chain_ends [of "Suc 0" scene_AB 0 ?p]
  have "\<exists>j. chain_ends j scene_AB (getParent scene_AB 0)"
    by blast
  with chain returns show ?thesis
    by blast
qed

end
